theory Spec2Isabelle
  imports Main "HOL-Library.Word" "HOL-Library.Signed_Division"
begin

unbundle bit_operations_syntax

section \<open>The output core of libobs (obs-output.c)\<close>

text \<open>
  A shallow embedding of \<^verbatim>\<open>src/libobs/obs-output.c\<close>. Pointers are addresses
  (\<open>nat\<close>), a possibly-NULL pointer is an \<open>option\<close>, and the structures the file
  mutates live in a store (\<open>obs_world\<close>). Calls into collaborators whose code is in
  other files (encoders, raw media pipelines, the signal bus, the sink's callbacks)
  are recorded, in order, in a trace of events. A dereference of NULL, a division by
  zero and a read past the end of an array are faults.
\<close>

subsection \<open>Data\<close>

type_synonym int64_t = "64 word"
type_synonym uint32_t = "32 word"
type_synonym c_int = "32 word"

datatype fault = Null_deref | Div_by_zero | Out_of_bounds

datatype obs_encoder_type = OBS_ENCODER_AUDIO | OBS_ENCODER_VIDEO

text \<open>
  \<^verbatim>\<open>struct encoder_packet\<close>: the fields obs-output.c reads. \<open>timebase_den\<close> holds
  the denominator as \<^verbatim>\<open>convert_packet_dts\<close> sees it after the usual arithmetic
  conversion to \<^verbatim>\<open>int64_t\<close>.
\<close>

record encoder_packet =
  packet_data :: "8 word list"
  pts :: int64_t
  dts :: int64_t
  timebase_den :: int64_t
  packet_type :: obs_encoder_type

text \<open>\<^verbatim>\<open>struct il_packet\<close>: a buffered packet with its two microsecond timestamps.\<close>

record il_packet =
  input_ts_us :: int64_t
  output_ts_us :: int64_t
  packet :: encoder_packet

text \<open>
  \<^verbatim>\<open>struct obs_output_info\<close>: the capability flags, which optional hooks are set,
  and what the sink's \<^verbatim>\<open>start\<close> hook answers for a given private state.
\<close>

record obs_output_info =
  flags :: uint32_t
  start :: "nat option \<Rightarrow> bool"
  has_update :: bool
  has_pause :: bool

text \<open>The two functions obs-output.c hands to an encoder as its packet callback.\<close>

datatype encoded_callback = Cb_interleave_packets | Cb_info_encoded_packet

datatype callback_param = Param_output nat | Param_data "nat option"

datatype calldata_value = Cd_int c_int | Cd_ptr "nat option"

datatype event =
    Encoder_start "nat option" encoded_callback callback_param
  | Encoder_stop "nat option" encoded_callback callback_param
  | Video_output_connect "nat option" "nat option" "nat option"
  | Audio_output_connect "nat option" "nat option" "nat option"
  | Video_output_disconnect "nat option" "nat option"
  | Audio_output_disconnect "nat option" "nat option"
  | Signal "nat option" string "(string \<times> calldata_value) list"
  | Info_encoded_packet "nat option" encoder_packet
  | Info_start "nat option"
  | Info_stop "nat option"
  | Info_pause "nat option"
  | Info_update "nat option" "nat option"
  | Data_apply "nat option" "nat option"
  | Duplicate_encoder_packet encoder_packet
  | Free_encoder_packet encoder_packet

text \<open>
  \<^verbatim>\<open>struct obs_output\<close>. \<open>data\<close> is the sink's private state, \<open>signals\<close> and
  \<open>procs\<close> the two handler handles, \<open>video\<close> and \<open>audio\<close> the raw media
  pipelines, \<open>video_encoder\<close> and \<open>audio_encoder\<close> the bound encoders (NULL is
  \<open>None\<close>). A conversion is kept as the address of its descriptor.
\<close>

record obs_output =
  data :: "nat option"
  info :: obs_output_info
  settings :: "nat option"
  signals :: "nat option"
  procs :: "nat option"
  received_video :: bool
  received_audio :: bool
  first_video_ts :: int64_t
  video_offset :: int64_t
  audio_offset :: int64_t
  interleaved_packets :: "il_packet list"
  active :: bool
  video :: "nat option"
  audio :: "nat option"
  video_encoder :: "nat option"
  audio_encoder :: "nat option"
  video_conversion :: nat
  audio_conversion :: nat
  video_conversion_set :: bool
  audio_conversion_set :: bool
  valid :: bool

subsection \<open>The packet interleaver\<close>

text \<open>C's \<^verbatim>\<open>/\<close> on \<^verbatim>\<open>int64_t\<close>: the quotient truncated towards zero.\<close>

definition c_sdiv :: "int64_t \<Rightarrow> int64_t \<Rightarrow> int64_t" where
  "c_sdiv a b = word_of_int (sint a sdiv sint b)"

text \<open>
  \<^verbatim>\<open>convert_packet_dts\<close>: \<^verbatim>\<open>dts * MICROSECOND_DEN / timebase_den\<close> in
  \<^verbatim>\<open>int64_t\<close>. A zero denominator is a fault; a product or quotient out of range,
  which C leaves undefined, wraps around here.
\<close>

definition MICROSECOND_DEN :: int64_t where
  "MICROSECOND_DEN = 1000000"

definition convert_packet_dts :: "encoder_packet \<Rightarrow> fault + int64_t" where
  "convert_packet_dts p =
     (if timebase_den p = 0 then Inl Div_by_zero
      else Inr (c_sdiv (dts p * MICROSECOND_DEN) (timebase_den p)))"

text \<open>
  Modelled from the spec: \<^verbatim>\<open>obs_duplicate_encoder_packet\<close> (obs-encoder.c, not under
  src) gives the destination an owned copy of the packet and its payload.
\<close>

definition obs_duplicate_encoder_packet :: "encoder_packet \<Rightarrow> encoder_packet \<times> event list" where
  "obs_duplicate_encoder_packet src = (src, [Duplicate_encoder_packet src])"

text \<open>
  Lines 390 to 394 of \<^verbatim>\<open>prepare_interleaved_packet\<close>, the tail both accepting
  branches reach: copy the packet, subtract the offset from dts and pts, and compute
  the adjusted microsecond timestamp.
\<close>

definition rebase_packet ::
  "obs_output \<Rightarrow> il_packet \<Rightarrow> encoder_packet \<Rightarrow> int64_t \<Rightarrow>
     fault + (bool \<times> obs_output \<times> il_packet \<times> event list)" where
  "rebase_packet output out p offset =
     (let (copy, evs) = obs_duplicate_encoder_packet p;
          copy = copy\<lparr>dts := dts copy - offset\<rparr>;
          copy = copy\<lparr>pts := pts copy - offset\<rparr>;
          out = out\<lparr>packet := copy\<rparr>
      in case convert_packet_dts (packet out) of
           Inl e \<Rightarrow> Inl e
         | Inr ts \<Rightarrow> Inr (True, output, out\<lparr>output_ts_us := ts\<rparr>, evs))"

text \<open>
  \<^verbatim>\<open>prepare_interleaved_packet(output, out, packet)\<close>. \<open>out\<close> comes in with whatever
  the caller's uninitialised local holds; the result is the returned flag, the
  output, \<open>out\<close> as written so far, and the collaborator calls made.
\<close>

definition prepare_interleaved_packet ::
  "obs_output \<Rightarrow> il_packet \<Rightarrow> encoder_packet \<Rightarrow>
     fault + (bool \<times> obs_output \<times> il_packet \<times> event list)" where
  "prepare_interleaved_packet output out p =
     (case convert_packet_dts p of
        Inl e \<Rightarrow> Inl e
      | Inr ts \<Rightarrow>
          (let out = out\<lparr>input_ts_us := ts\<rparr> in
           if packet_type p = OBS_ENCODER_VIDEO then
             (let output =
                (if \<not> received_video output
                 then output\<lparr>first_video_ts := input_ts_us out,
                             video_offset := dts p,
                             received_video := True\<rparr>
                 else output)
              in rebase_packet output out p (video_offset output))
           else if \<not> received_video output \<or> input_ts_us out <s first_video_ts output
             then Inr (False, output, out, [])
           else
             (let output =
                (if \<not> received_audio output
                 then output\<lparr>audio_offset := dts p, received_audio := True\<rparr>
                 else output)
              in rebase_packet output out p (audio_offset output))))"

text \<open>
  Modelled from the spec: \<^verbatim>\<open>da_insert\<close> and \<^verbatim>\<open>da_erase\<close> (util/darray.h, not
  under src) insert an element at an index of the buffer and remove the element at
  an index.
\<close>

definition da_insert :: "'a list \<Rightarrow> nat \<Rightarrow> 'a \<Rightarrow> 'a list" where
  "da_insert xs idx x = take idx xs @ x # drop idx xs"

definition da_erase :: "'a list \<Rightarrow> nat \<Rightarrow> 'a list" where
  "da_erase xs idx = take idx xs @ drop (Suc idx) xs"

definition free_il_packet :: "il_packet \<Rightarrow> event list" where
  "free_il_packet d = [Free_encoder_packet (packet d)]"

definition send_interleaved :: "obs_output \<Rightarrow> fault + (obs_output \<times> event list)" where
  "send_interleaved output =
     (case interleaved_packets output of
        [] \<Rightarrow> Inl Out_of_bounds
      | out # _ \<Rightarrow>
          Inr (output\<lparr>interleaved_packets := da_erase (interleaved_packets output) 0\<rparr>,
               Info_encoded_packet (data output) (packet out) # free_il_packet out))"

text \<open>
  The scan of \<^verbatim>\<open>interleave_packets\<close> (lines 416 to 422): from \<open>idx\<close> on, the first
  index whose entry has a strictly greater adjusted timestamp, or the length.
\<close>

function interleave_idx :: "il_packet \<Rightarrow> il_packet list \<Rightarrow> nat \<Rightarrow> nat" where
  "interleave_idx out packets idx =
     (if idx < length packets
      then (if output_ts_us out <s output_ts_us (packets ! idx) then idx
            else interleave_idx out packets (idx + 1))
      else idx)"
  by pat_completeness auto
termination
  by (relation "measure (\<lambda>(out, packets, idx). length packets - idx)") auto

declare interleave_idx.simps [simp del]

text \<open>
  \<^verbatim>\<open>interleave_packets(data, packet)\<close>, with \<open>output\<close> the structure \<open>data\<close> points
  to and \<open>out\<close> the initial contents of the local \<^verbatim>\<open>struct il_packet out\<close>, which the
  function does not initialise. The body of the \<^verbatim>\<open>if\<close> runs when
  \<^verbatim>\<open>prepare_interleaved_packet\<close> returns false, as line 414 has it.
\<close>

definition interleave_packets ::
  "obs_output \<Rightarrow> il_packet \<Rightarrow> encoder_packet \<Rightarrow> fault + (obs_output \<times> event list)" where
  "interleave_packets output out p =
     (case prepare_interleaved_packet output out p of
        Inl e \<Rightarrow> Inl e
      | Inr (ok, output, out, evs) \<Rightarrow>
          if \<not> ok then
            (let idx = interleave_idx out (interleaved_packets output) 0;
                 output = output\<lparr>interleaved_packets :=
                            da_insert (interleaved_packets output) idx out\<rparr>
             in if received_audio output \<and> received_video output
                then (case send_interleaved output of
                        Inl e \<Rightarrow> Inl e
                      | Inr (output, sent) \<Rightarrow> Inr (output, evs @ sent))
                else Inr (output, evs))
          else Inr (output, evs))"

text \<open>The packets the sink's \<^verbatim>\<open>encoded_packet\<close> callback was given, in order.\<close>

fun released :: "event list \<Rightarrow> encoder_packet list" where
  "released [] = []"
| "released (Info_encoded_packet d p # evs) = p # released evs"
| "released (_ # evs) = released evs"

text \<open>A buffer in ascending order of the signed adjusted timestamps of its entries.\<close>

definition ts_sorted :: "il_packet list \<Rightarrow> bool" where
  "ts_sorted xs = sorted (map (\<lambda>x. sint (output_ts_us x)) xs)"

subsection \<open>Encoders and the store\<close>

text \<open>
  \<^verbatim>\<open>struct obs_encoder\<close>, as far as obs-output.c reads it (\<^verbatim>\<open>info.type\<close>), with
  the set of outputs the encoder is linked to.
\<close>

record obs_encoder =
  encoder_type :: obs_encoder_type
  encoder_outputs :: "nat set"

record obs_world =
  outputs :: "nat \<Rightarrow> obs_output"
  encoders :: "nat \<Rightarrow> obs_encoder"
  trace :: "event list"

definition update_output :: "obs_world \<Rightarrow> nat \<Rightarrow> (obs_output \<Rightarrow> obs_output) \<Rightarrow> obs_world" where
  "update_output w p f = w\<lparr>outputs := (outputs w)(p := f (outputs w p))\<rparr>"

definition emit :: "obs_world \<Rightarrow> event \<Rightarrow> obs_world" where
  "emit w ev = w\<lparr>trace := trace w @ [ev]\<rparr>"

text \<open>
  Modelled from the spec: \<^verbatim>\<open>obs_encoder_add_output\<close> and
  \<^verbatim>\<open>obs_encoder_remove_output\<close> (obs-encoder.c, not under src) add the output to,
  and remove it from, the encoder's set of outputs; with no encoder there is no set
  to change.
\<close>

definition obs_encoder_add_output :: "obs_world \<Rightarrow> nat option \<Rightarrow> nat \<Rightarrow> obs_world" where
  "obs_encoder_add_output w encoder output =
     (case encoder of
        None \<Rightarrow> w
      | Some e \<Rightarrow>
          w\<lparr>encoders := (encoders w)
               (e := (encoders w e)\<lparr>encoder_outputs :=
                        insert output (encoder_outputs (encoders w e))\<rparr>)\<rparr>)"

definition obs_encoder_remove_output :: "obs_world \<Rightarrow> nat option \<Rightarrow> nat \<Rightarrow> obs_world" where
  "obs_encoder_remove_output w encoder output =
     (case encoder of
        None \<Rightarrow> w
      | Some e \<Rightarrow>
          w\<lparr>encoders := (encoders w)
               (e := (encoders w e)\<lparr>encoder_outputs :=
                        encoder_outputs (encoders w e) - {output}\<rparr>)\<rparr>)"

subsection \<open>Pass-through operations\<close>

definition obs_output_start :: "obs_world \<Rightarrow> nat option \<Rightarrow> bool \<times> obs_world" where
  "obs_output_start w output =
     (case output of
        None \<Rightarrow> (False, w)
      | Some p \<Rightarrow>
          (start (info (outputs w p)) (data (outputs w p)),
           emit w (Info_start (data (outputs w p)))))"

definition obs_output_stop :: "obs_world \<Rightarrow> nat option \<Rightarrow> obs_world" where
  "obs_output_stop w output =
     (case output of
        None \<Rightarrow> w
      | Some p \<Rightarrow> emit w (Info_stop (data (outputs w p))))"

definition obs_output_active :: "obs_world \<Rightarrow> nat option \<Rightarrow> bool" where
  "obs_output_active w output =
     (case output of None \<Rightarrow> False | Some p \<Rightarrow> active (outputs w p))"

definition obs_output_update :: "obs_world \<Rightarrow> nat option \<Rightarrow> nat option \<Rightarrow> obs_world" where
  "obs_output_update w output new_settings =
     (case output of
        None \<Rightarrow> w
      | Some p \<Rightarrow>
          (let w = emit w (Data_apply (settings (outputs w p)) new_settings)
           in if has_update (info (outputs w p))
              then emit w (Info_update (data (outputs w p)) (settings (outputs w p)))
              else w))"

definition obs_output_canpause :: "obs_world \<Rightarrow> nat option \<Rightarrow> bool" where
  "obs_output_canpause w output =
     (case output of None \<Rightarrow> False | Some p \<Rightarrow> has_pause (info (outputs w p)))"

definition obs_output_pause :: "obs_world \<Rightarrow> nat option \<Rightarrow> obs_world" where
  "obs_output_pause w output =
     (case output of
        None \<Rightarrow> w
      | Some p \<Rightarrow>
          if has_pause (info (outputs w p)) then emit w (Info_pause (data (outputs w p)))
          else w)"

definition obs_output_signalhandler :: "obs_world \<Rightarrow> nat option \<Rightarrow> nat option" where
  "obs_output_signalhandler w output =
     (case output of None \<Rightarrow> None | Some p \<Rightarrow> signals (outputs w p))"

definition obs_output_prochandler :: "obs_world \<Rightarrow> nat option \<Rightarrow> nat option" where
  "obs_output_prochandler w output =
     (case output of None \<Rightarrow> None | Some p \<Rightarrow> procs (outputs w p))"

definition obs_output_set_media ::
  "obs_world \<Rightarrow> nat option \<Rightarrow> nat option \<Rightarrow> nat option \<Rightarrow> obs_world" where
  "obs_output_set_media w output v a =
     (case output of
        None \<Rightarrow> w
      | Some p \<Rightarrow> update_output w p (\<lambda>out. out\<lparr>video := v, audio := a\<rparr>))"

definition obs_output_video :: "obs_world \<Rightarrow> nat option \<Rightarrow> nat option" where
  "obs_output_video w output =
     (case output of None \<Rightarrow> None | Some p \<Rightarrow> video (outputs w p))"

definition obs_output_audio :: "obs_world \<Rightarrow> nat option \<Rightarrow> nat option" where
  "obs_output_audio w output =
     (case output of None \<Rightarrow> None | Some p \<Rightarrow> audio (outputs w p))"

subsection \<open>Encoder binding\<close>

definition obs_output_remove_encoder :: "obs_world \<Rightarrow> nat option \<Rightarrow> nat option \<Rightarrow> obs_world" where
  "obs_output_remove_encoder w output encoder =
     (case output of
        None \<Rightarrow> w
      | Some p \<Rightarrow>
          if video_encoder (outputs w p) = encoder
          then update_output w p (\<lambda>out. out\<lparr>video_encoder := None\<rparr>)
          else if audio_encoder (outputs w p) = encoder
          then update_output w p (\<lambda>out. out\<lparr>audio_encoder := None\<rparr>)
          else w)"

text \<open>
  The encoder handed to \<^verbatim>\<open>obs_encoder_remove_output\<close> on line 268 (and 279) is the
  function's argument \<open>encoder\<close>, as in the source.
\<close>

definition obs_output_set_video_encoder ::
  "obs_world \<Rightarrow> nat option \<Rightarrow> nat option \<Rightarrow> obs_world" where
  "obs_output_set_video_encoder w output encoder =
     (case output of
        None \<Rightarrow> w
      | Some p \<Rightarrow>
          if video_encoder (outputs w p) = encoder then w
          else if (case encoder of
                     None \<Rightarrow> False
                   | Some e \<Rightarrow> encoder_type (encoders w e) \<noteq> OBS_ENCODER_VIDEO) then w
          else
            (let w = obs_encoder_remove_output w encoder p;
                 w = obs_encoder_add_output w encoder p
             in update_output w p (\<lambda>out. out\<lparr>video_encoder := encoder\<rparr>)))"

definition obs_output_set_audio_encoder ::
  "obs_world \<Rightarrow> nat option \<Rightarrow> nat option \<Rightarrow> obs_world" where
  "obs_output_set_audio_encoder w output encoder =
     (case output of
        None \<Rightarrow> w
      | Some p \<Rightarrow>
          if audio_encoder (outputs w p) = encoder then w
          else if (case encoder of
                     None \<Rightarrow> False
                   | Some e \<Rightarrow> encoder_type (encoders w e) \<noteq> OBS_ENCODER_AUDIO) then w
          else
            (let w = obs_encoder_remove_output w encoder p;
                 w = obs_encoder_add_output w encoder p
             in update_output w p (\<lambda>out. out\<lparr>audio_encoder := encoder\<rparr>)))"

definition obs_output_get_video_encoder :: "obs_world \<Rightarrow> nat option \<Rightarrow> nat option" where
  "obs_output_get_video_encoder w output =
     (case output of None \<Rightarrow> None | Some p \<Rightarrow> video_encoder (outputs w p))"

definition obs_output_get_audio_encoder :: "obs_world \<Rightarrow> nat option \<Rightarrow> nat option" where
  "obs_output_get_audio_encoder w output =
     (case output of None \<Rightarrow> None | Some p \<Rightarrow> audio_encoder (outputs w p))"

definition obs_output_set_video_conversion ::
  "obs_world \<Rightarrow> nat option \<Rightarrow> nat option \<Rightarrow> obs_world" where
  "obs_output_set_video_conversion w output conversion =
     (case (output, conversion) of
        (Some p, Some c) \<Rightarrow>
          update_output w p (\<lambda>out. out\<lparr>video_conversion := c, video_conversion_set := True\<rparr>)
      | _ \<Rightarrow> w)"

definition obs_output_set_audio_conversion ::
  "obs_world \<Rightarrow> nat option \<Rightarrow> nat option \<Rightarrow> obs_world" where
  "obs_output_set_audio_conversion w output conversion =
     (case (output, conversion) of
        (Some p, Some c) \<Rightarrow>
          update_output w p (\<lambda>out. out\<lparr>audio_conversion := c, audio_conversion_set := True\<rparr>)
      | _ \<Rightarrow> w)"

subsection \<open>Data capture\<close>

text \<open>
  The flag masks \<^verbatim>\<open>OBS_OUTPUT_VIDEO\<close>, \<^verbatim>\<open>OBS_OUTPUT_AUDIO\<close> and
  \<^verbatim>\<open>OBS_OUTPUT_ENCODED\<close> are macros of obs-output.h, which is not under src: the
  functions that use them take them as a parameter.
\<close>

record output_flag_bits =
  OBS_OUTPUT_VIDEO :: uint32_t
  OBS_OUTPUT_AUDIO :: uint32_t
  OBS_OUTPUT_ENCODED :: uint32_t

text \<open>
  Modelled from the spec: \<^verbatim>\<open>OBS_OUTPUT_SUCCESS\<close> (obs-output.h, not under src) is the
  success code of the start notification, which the spec's scenario gives as 0.
\<close>

definition OBS_OUTPUT_SUCCESS :: c_int where
  "OBS_OUTPUT_SUCCESS = 0"

definition can_begin_data_capture :: "obs_output \<Rightarrow> bool \<Rightarrow> bool \<Rightarrow> bool \<Rightarrow> bool" where
  "can_begin_data_capture output encoded has_video has_audio =
     (if has_video \<and> encoded \<and> video_encoder output = None then False
      else if has_video \<and> \<not> encoded \<and> video output = None then False
      else if has_audio \<and> encoded \<and> audio_encoder output = None then False
      else if has_audio \<and> \<not> encoded \<and> audio output = None then False
      else True)"

definition get_video_conversion :: "obs_output \<Rightarrow> nat option" where
  "get_video_conversion output =
     (if video_conversion_set output then Some (video_conversion output) else None)"

definition get_audio_conversion :: "obs_output \<Rightarrow> nat option" where
  "get_audio_conversion output =
     (if audio_conversion_set output then Some (audio_conversion output) else None)"

text \<open>
  \<^verbatim>\<open>hook_data_capture(output, encoded, has_video, has_audio)\<close>, \<open>p\<close> being the address
  of the output. Lines 442 and 443 both assign \<^verbatim>\<open>received_video\<close>.
\<close>

definition hook_data_capture :: "obs_world \<Rightarrow> nat \<Rightarrow> bool \<Rightarrow> bool \<Rightarrow> bool \<Rightarrow> obs_world" where
  "hook_data_capture w p encoded has_video has_audio =
     (if encoded then
        (let w = update_output w p (\<lambda>out. out\<lparr>received_video := False\<rparr>);
             w = update_output w p (\<lambda>out. out\<lparr>received_video := False\<rparr>);
             encoded_callback =
               (if has_video \<and> has_audio then Cb_interleave_packets else Cb_info_encoded_packet);
             param =
               (if has_video \<and> has_audio then Param_output p
                else Param_data (data (outputs w p)));
             w = (if has_video
                  then emit w (Encoder_start (video_encoder (outputs w p)) encoded_callback param)
                  else w);
             w = (if has_audio
                  then emit w (Encoder_start (audio_encoder (outputs w p)) encoded_callback param)
                  else w)
         in w)
      else
        (let w = (if has_video
                  then emit w (Video_output_connect (video (outputs w p))
                                 (get_video_conversion (outputs w p)) (data (outputs w p)))
                  else w);
             w = (if has_audio
                  then emit w (Audio_output_connect (audio (outputs w p))
                                 (get_audio_conversion (outputs w p)) (data (outputs w p)))
                  else w)
         in w))"

text \<open>
  \<^verbatim>\<open>signal_start\<close> and \<^verbatim>\<open>signal_stop\<close> read \<^verbatim>\<open>output->signals\<close> without a check
  of \<open>output\<close>.
\<close>

definition signal_start :: "obs_world \<Rightarrow> nat option \<Rightarrow> c_int \<Rightarrow> fault + obs_world" where
  "signal_start w output code =
     (let params = [(''code'', Cd_int code), (''output'', Cd_ptr output)]
      in case output of
           None \<Rightarrow> Inl Null_deref
         | Some p \<Rightarrow> Inr (emit w (Signal (signals (outputs w p)) ''start'' params)))"

definition signal_stop :: "obs_world \<Rightarrow> nat option \<Rightarrow> fault + obs_world" where
  "signal_stop w output =
     (let params = [(''output'', Cd_ptr output)]
      in case output of
           None \<Rightarrow> Inl Null_deref
         | Some p \<Rightarrow> Inr (emit w (Signal (signals (outputs w p)) ''stop'' params)))"

definition convert_flags ::
  "output_flag_bits \<Rightarrow> obs_output \<Rightarrow> uint32_t \<Rightarrow> bool \<times> bool \<times> bool" where
  "convert_flags bits output flgs =
     (let encoded = (flags (info output) AND OBS_OUTPUT_ENCODED bits \<noteq> 0);
          flgs = (if flgs = 0 then flags (info output) else flgs AND flags (info output));
          has_video = (flgs AND OBS_OUTPUT_VIDEO bits \<noteq> 0);
          has_audio = (flgs AND OBS_OUTPUT_AUDIO bits \<noteq> 0)
      in (encoded, has_video, has_audio))"

definition obs_output_can_begin_data_capture ::
  "output_flag_bits \<Rightarrow> obs_world \<Rightarrow> nat option \<Rightarrow> uint32_t \<Rightarrow> bool" where
  "obs_output_can_begin_data_capture bits w output flgs =
     (case output of
        None \<Rightarrow> False
      | Some p \<Rightarrow>
          if active (outputs w p) then False
          else
            (let (encoded, has_video, has_audio) = convert_flags bits (outputs w p) flgs
             in can_begin_data_capture (outputs w p) encoded has_video has_audio))"

definition obs_output_begin_data_capture ::
  "output_flag_bits \<Rightarrow> obs_world \<Rightarrow> nat option \<Rightarrow> uint32_t \<Rightarrow> fault + (bool \<times> obs_world)" where
  "obs_output_begin_data_capture bits w output flgs =
     (case output of
        None \<Rightarrow> Inr (False, w)
      | Some p \<Rightarrow>
          if active (outputs w p) then Inr (False, w)
          else
            (let (encoded, has_video, has_audio) = convert_flags bits (outputs w p) flgs
             in if \<not> can_begin_data_capture (outputs w p) encoded has_video has_audio
                then Inr (False, w)
                else
                  (let w = hook_data_capture w p encoded has_video has_audio;
                       w = update_output w p (\<lambda>out. out\<lparr>active := True\<rparr>)
                   in case signal_start w (Some p) OBS_OUTPUT_SUCCESS of
                        Inl e \<Rightarrow> Inl e
                      | Inr w \<Rightarrow> Inr (True, w))))"

definition obs_output_end_data_capture ::
  "output_flag_bits \<Rightarrow> obs_world \<Rightarrow> nat option \<Rightarrow> fault + obs_world" where
  "obs_output_end_data_capture bits w output =
     (case output of
        None \<Rightarrow> Inr w
      | Some p \<Rightarrow>
          if \<not> active (outputs w p) then Inr w
          else
            (let (encoded, has_video, has_audio) = convert_flags bits (outputs w p) 0;
                 w =
                   (if encoded then
                      (let encoded_callback =
                             (if has_video \<and> has_audio then Cb_interleave_packets
                              else Cb_info_encoded_packet);
                           param =
                             (if has_video \<and> has_audio then Param_output p
                              else Param_data (data (outputs w p)));
                           w = (if has_video
                                then emit w (Encoder_stop (video_encoder (outputs w p))
                                               encoded_callback param)
                                else w);
                           w = (if has_audio
                                then emit w (Encoder_stop (audio_encoder (outputs w p))
                                               encoded_callback param)
                                else w)
                       in w)
                    else
                      (let w = (if has_video
                                then emit w (Video_output_disconnect (video (outputs w p))
                                               (data (outputs w p)))
                                else w);
                           w = (if has_audio
                                then emit w (Audio_output_disconnect (audio (outputs w p))
                                               (data (outputs w p)))
                                else w)
                       in w));
                 w = update_output w p (\<lambda>out. out\<lparr>active := False\<rparr>)
             in signal_stop w (Some p)))"

definition obs_output_signal_start_fail ::
  "obs_world \<Rightarrow> nat option \<Rightarrow> c_int \<Rightarrow> fault + obs_world" where
  "obs_output_signal_start_fail w output code = signal_start w output code"

subsection \<open>Operations on the store\<close>

text \<open>
  The operations of obs-output.c that act on an existing output, and the delivery of
  an encoded packet to \<^verbatim>\<open>interleave_packets\<close> with the output at address \<open>p\<close> as
  its \<^verbatim>\<open>data\<close> argument. \<^verbatim>\<open>obs_output_create\<close> and \<^verbatim>\<open>obs_output_destroy\<close>,
  which allocate and free the structure, are not part of the model.
\<close>

datatype operation =
    Op_start "nat option"
  | Op_stop "nat option"
  | Op_update "nat option" "nat option"
  | Op_pause "nat option"
  | Op_set_media "nat option" "nat option" "nat option"
  | Op_remove_encoder "nat option" "nat option"
  | Op_set_video_encoder "nat option" "nat option"
  | Op_set_audio_encoder "nat option" "nat option"
  | Op_set_video_conversion "nat option" "nat option"
  | Op_set_audio_conversion "nat option" "nat option"
  | Op_begin_data_capture "nat option" uint32_t
  | Op_end_data_capture "nat option"
  | Op_signal_start_fail "nat option" c_int
  | Op_interleave_packets nat il_packet encoder_packet

fun apply_operation :: "output_flag_bits \<Rightarrow> obs_world \<Rightarrow> operation \<Rightarrow> fault + obs_world" where
  "apply_operation bits w (Op_start h) = Inr (snd (obs_output_start w h))"
| "apply_operation bits w (Op_stop h) = Inr (obs_output_stop w h)"
| "apply_operation bits w (Op_update h s) = Inr (obs_output_update w h s)"
| "apply_operation bits w (Op_pause h) = Inr (obs_output_pause w h)"
| "apply_operation bits w (Op_set_media h v a) = Inr (obs_output_set_media w h v a)"
| "apply_operation bits w (Op_remove_encoder h e) = Inr (obs_output_remove_encoder w h e)"
| "apply_operation bits w (Op_set_video_encoder h e) = Inr (obs_output_set_video_encoder w h e)"
| "apply_operation bits w (Op_set_audio_encoder h e) = Inr (obs_output_set_audio_encoder w h e)"
| "apply_operation bits w (Op_set_video_conversion h c) =
     Inr (obs_output_set_video_conversion w h c)"
| "apply_operation bits w (Op_set_audio_conversion h c) =
     Inr (obs_output_set_audio_conversion w h c)"
| "apply_operation bits w (Op_begin_data_capture h flgs) =
     (case obs_output_begin_data_capture bits w h flgs of
        Inl e \<Rightarrow> Inl e
      | Inr (ok, w) \<Rightarrow> Inr w)"
| "apply_operation bits w (Op_end_data_capture h) = obs_output_end_data_capture bits w h"
| "apply_operation bits w (Op_signal_start_fail h code) = obs_output_signal_start_fail w h code"
| "apply_operation bits w (Op_interleave_packets p out pkt) =
     (case interleave_packets (outputs w p) out pkt of
        Inl e \<Rightarrow> Inl e
      | Inr (output, evs) \<Rightarrow>
          Inr (w\<lparr>outputs := (outputs w)(p := output), trace := trace w @ evs\<rparr>))"

fun run_operations :: "output_flag_bits \<Rightarrow> obs_world \<Rightarrow> operation list \<Rightarrow> fault + obs_world" where
  "run_operations bits w [] = Inr w"
| "run_operations bits w (op # ops) =
     (case apply_operation bits w op of
        Inl e \<Rightarrow> Inl e
      | Inr w \<Rightarrow> run_operations bits w ops)"

subsection \<open>What the specification says capture start and end do\<close>

text \<open>
  These three definitions follow the words of the specification, not the code. The
  effective flags are the type's full flag set when no flags are requested, and the
  intersection with the type's flag set otherwise.
\<close>

definition spec_effective_flags :: "obs_output \<Rightarrow> uint32_t \<Rightarrow> uint32_t" where
  "spec_effective_flags out flgs =
     (if flgs = 0 then flags (info out) else flgs AND flags (info out))"

text \<open>
  Capture start, per the specification: in encoded mode, with both media requested both
  encoders are started with the interleaving callback and the instance as context;
  with one medium requested that encoder is started with the sink's own packet
  callback and the sink's private state; in raw mode the raw pipelines are connected
  with the configured conversion.
\<close>

definition spec_hook_events :: "output_flag_bits \<Rightarrow> nat \<Rightarrow> obs_output \<Rightarrow> uint32_t \<Rightarrow> event list" where
  "spec_hook_events bits p out flgs =
     (let has_video = (spec_effective_flags out flgs AND OBS_OUTPUT_VIDEO bits \<noteq> 0);
          has_audio = (spec_effective_flags out flgs AND OBS_OUTPUT_AUDIO bits \<noteq> 0)
      in if flags (info out) AND OBS_OUTPUT_ENCODED bits \<noteq> 0 then
           (if has_video \<and> has_audio then
              [Encoder_start (video_encoder out) Cb_interleave_packets (Param_output p),
               Encoder_start (audio_encoder out) Cb_interleave_packets (Param_output p)]
            else if has_video then
              [Encoder_start (video_encoder out) Cb_info_encoded_packet (Param_data (data out))]
            else if has_audio then
              [Encoder_start (audio_encoder out) Cb_info_encoded_packet (Param_data (data out))]
            else [])
         else
           (if has_video
            then [Video_output_connect (video out) (get_video_conversion out) (data out)]
            else []) @
           (if has_audio
            then [Audio_output_connect (audio out) (get_audio_conversion out) (data out)]
            else []))"

text \<open>
  Capture end, per the specification: the same decomposition computed from the type's
  full flag set, stopping the encoders or disconnecting the raw pipelines.
\<close>

definition spec_unhook_events :: "output_flag_bits \<Rightarrow> nat \<Rightarrow> obs_output \<Rightarrow> event list" where
  "spec_unhook_events bits p out =
     (let has_video = (flags (info out) AND OBS_OUTPUT_VIDEO bits \<noteq> 0);
          has_audio = (flags (info out) AND OBS_OUTPUT_AUDIO bits \<noteq> 0)
      in if flags (info out) AND OBS_OUTPUT_ENCODED bits \<noteq> 0 then
           (if has_video \<and> has_audio then
              [Encoder_stop (video_encoder out) Cb_interleave_packets (Param_output p),
               Encoder_stop (audio_encoder out) Cb_interleave_packets (Param_output p)]
            else if has_video then
              [Encoder_stop (video_encoder out) Cb_info_encoded_packet (Param_data (data out))]
            else if has_audio then
              [Encoder_stop (audio_encoder out) Cb_info_encoded_packet (Param_data (data out))]
            else [])
         else
           (if has_video then [Video_output_disconnect (video out) (data out)] else []) @
           (if has_audio then [Audio_output_disconnect (audio out) (data out)] else []))"

subsection \<open>A concrete output, its encoders and two capture sessions\<close>

text \<open>
  An encoded audio and video sink type (all three flag bits set), an output of that
  type at address 1 as \<^verbatim>\<open>obs_output_create\<close> leaves it, bound to the video encoder
  at address 5 and the audio encoder at address 6. Encoders 8 and 9 are a second video
  and a second audio encoder, linked to no output.
\<close>

definition example_bits :: output_flag_bits where
  "example_bits = \<lparr>OBS_OUTPUT_VIDEO = 1, OBS_OUTPUT_AUDIO = 2, OBS_OUTPUT_ENCODED = 4\<rparr>"

definition example_info :: obs_output_info where
  "example_info = \<lparr>flags = 7, start = (\<lambda>_. True), has_update = False, has_pause = False\<rparr>"

definition example_output :: obs_output where
  "example_output =
     \<lparr>data = Some 10, info = example_info, settings = Some 11, signals = Some 12,
      procs = Some 13, received_video = False, received_audio = False, first_video_ts = 0,
      video_offset = 0, audio_offset = 0, interleaved_packets = [], active = False,
      video = Some 3, audio = Some 4, video_encoder = Some 5, audio_encoder = Some 6,
      video_conversion = 0, audio_conversion = 0, video_conversion_set = False,
      audio_conversion_set = False, valid = True\<rparr>"

definition example_encoder :: "nat \<Rightarrow> obs_encoder" where
  "example_encoder e =
     \<lparr>encoder_type = (if e = 6 \<or> e = 9 then OBS_ENCODER_AUDIO else OBS_ENCODER_VIDEO),
      encoder_outputs = (if e = 5 \<or> e = 6 then {1} else {})\<rparr>"

definition example_world :: obs_world where
  "example_world =
     \<lparr>outputs = (\<lambda>_. example_output\<lparr>video_encoder := None, audio_encoder := None\<rparr>)
                  (1 := example_output),
      encoders = example_encoder,
      trace = []\<rparr>"

text \<open>Packets in a timebase of one tick per second, so that dts 100 is 100000000 us.\<close>

definition video_packet :: "int64_t \<Rightarrow> encoder_packet" where
  "video_packet d =
     \<lparr>packet_data = [1], pts = d, dts = d, timebase_den = 1, packet_type = OBS_ENCODER_VIDEO\<rparr>"

definition audio_packet :: "int64_t \<Rightarrow> encoder_packet" where
  "audio_packet d =
     \<lparr>packet_data = [2], pts = d, dts = d, timebase_den = 1, packet_type = OBS_ENCODER_AUDIO\<rparr>"

text \<open>
  Some contents of the uninitialised local \<^verbatim>\<open>out\<close> of \<^verbatim>\<open>interleave_packets\<close>: an
  entry that reads as a video packet with dts \<open>t\<close> in microseconds, sort key \<open>t\<close>.
\<close>

definition stack_garbage :: "int64_t \<Rightarrow> il_packet" where
  "stack_garbage t =
     \<lparr>input_ts_us = 0, output_ts_us = t,
      packet = \<lparr>packet_data = [], pts = t, dts = t, timebase_den = 1000000,
                packet_type = OBS_ENCODER_VIDEO\<rparr>\<rparr>"

text \<open>
  A first capture session: start, one video and one audio packet at dts 100, end.
\<close>

definition first_session :: "operation list" where
  "first_session =
     [Op_begin_data_capture (Some 1) 0,
      Op_interleave_packets 1 (stack_garbage 0) (video_packet 100),
      Op_interleave_packets 1 (stack_garbage 0) (audio_packet 100),
      Op_end_data_capture (Some 1)]"

definition after_first_session :: obs_world where
  "after_first_session =
     example_world
       \<lparr>outputs := (outputs example_world)
          (1 := example_output\<lparr>received_video := True, received_audio := True,
                  first_video_ts := 100000000, video_offset := 100, audio_offset := 100\<rparr>),
        trace :=
          [Encoder_start (Some 5) Cb_interleave_packets (Param_output 1),
           Encoder_start (Some 6) Cb_interleave_packets (Param_output 1),
           Signal (Some 12) ''start'' [(''code'', Cd_int 0), (''output'', Cd_ptr (Some 1))],
           Duplicate_encoder_packet (video_packet 100),
           Duplicate_encoder_packet (audio_packet 100),
           Encoder_stop (Some 5) Cb_interleave_packets (Param_output 1),
           Encoder_stop (Some 6) Cb_interleave_packets (Param_output 1),
           Signal (Some 12) ''stop'' [(''output'', Cd_ptr (Some 1))]]\<rparr>"


definition restarted_session :: "operation list" where
  "restarted_session =
     [Op_begin_data_capture (Some 1) 0,
      Op_interleave_packets 1 (stack_garbage 0) (video_packet 200),
      Op_interleave_packets 1 (stack_garbage 7) (audio_packet 150)]"



section \<open>Properties\<close>

subsection \<open>Evaluation rules and unfolding sets\<close>

lemma interleave_idx_end:
  "length packets \<le> idx \<Longrightarrow> interleave_idx out packets idx = idx"
  by (subst interleave_idx.simps) simp

lemma interleave_idx_stop:
  "idx < length packets \<Longrightarrow> output_ts_us out <s output_ts_us (packets ! idx) \<Longrightarrow>
   interleave_idx out packets idx = idx"
  by (subst interleave_idx.simps) simp

lemma interleave_idx_next:
  "idx < length packets \<Longrightarrow> \<not> output_ts_us out <s output_ts_us (packets ! idx) \<Longrightarrow>
   interleave_idx out packets idx = interleave_idx out packets (Suc idx)"
  by (subst interleave_idx.simps) simp

lemmas interleave_idx_eval = interleave_idx_end interleave_idx_stop interleave_idx_next

lemmas world_simps = update_output_def emit_def

lemmas example_defs = example_info_def example_output_def video_packet_def audio_packet_def
  stack_garbage_def

lemmas interleave_defs = interleave_packets_def prepare_interleaved_packet_def
  rebase_packet_def obs_duplicate_encoder_packet_def convert_packet_dts_def c_sdiv_def
  MICROSECOND_DEN_def send_interleaved_def free_il_packet_def da_insert_def da_erase_def

lemmas capture_defs = obs_output_begin_data_capture_def obs_output_end_data_capture_def
  obs_output_can_begin_data_capture_def convert_flags_def can_begin_data_capture_def
  hook_data_capture_def signal_start_def signal_stop_def get_video_conversion_def
  get_audio_conversion_def OBS_OUTPUT_SUCCESS_def update_output_def emit_def Let_def

subsection \<open>The interleaver, one call\<close>


lemma rebase_packet_output:
  "rebase_packet output out p offset = Inr (ok, output', out', evs) \<Longrightarrow> output' = output"
  by (auto simp add: rebase_packet_def obs_duplicate_encoder_packet_def Let_def
      split: sum.splits)

lemma prepare_interleaved_packet_active:
  "prepare_interleaved_packet output out p = Inr (ok, output', out', evs) \<Longrightarrow>
   active output' = active output"
  by (auto simp add: prepare_interleaved_packet_def Let_def
      split: sum.splits if_splits dest!: rebase_packet_output)

lemma send_interleaved_active:
  "send_interleaved output = Inr (output', evs) \<Longrightarrow> active output' = active output"
  by (auto simp add: send_interleaved_def split: list.splits)

lemma interleave_packets_active:
  "interleave_packets output out p = Inr (output', evs) \<Longrightarrow> active output' = active output"
  by (auto simp add: interleave_packets_def Let_def
      split: sum.splits if_splits prod.splits
      dest!: prepare_interleaved_packet_active send_interleaved_active)

text \<open>
  The scan and the insertion are right in themselves: whatever entry is inserted, a
  sorted buffer stays sorted, and an entry goes behind the entries of equal timestamp.
\<close>

lemma interleave_idx_bounds:
  "idx \<le> length packets \<Longrightarrow>
   idx \<le> interleave_idx out packets idx \<and> interleave_idx out packets idx \<le> length packets"
proof (induction out packets idx rule: interleave_idx.induct)
  case (1 out packets idx)
  show ?case
  proof (cases "idx < length packets \<and> \<not> output_ts_us out <s output_ts_us (packets ! idx)")
    case True
    with 1 show ?thesis
      by (subst (1 2) interleave_idx.simps) auto
  next
    case False
    with 1 show ?thesis
      by (subst (1 2) interleave_idx.simps) auto
  qed
qed

lemma interleave_idx_before:
  "idx \<le> j \<Longrightarrow> j < interleave_idx out packets idx \<Longrightarrow> j < length packets \<Longrightarrow>
   \<not> output_ts_us out <s output_ts_us (packets ! j)"
proof (induction out packets idx rule: interleave_idx.induct)
  case (1 out packets idx)
  show ?case
  proof (cases "idx < length packets \<and> \<not> output_ts_us out <s output_ts_us (packets ! idx)")
    case True
    then have eq: "interleave_idx out packets idx = interleave_idx out packets (idx + 1)"
      by (subst interleave_idx.simps) simp
    show ?thesis
    proof (cases "j = idx")
      case True
      with \<open>idx < length packets \<and> \<not> output_ts_us out <s output_ts_us (packets ! idx)\<close>
      show ?thesis by simp
    next
      case False
      with "1.prems" have "idx + 1 \<le> j" by simp
      from "1.IH" [OF _ _ this] True "1.prems" eq show ?thesis by simp
    qed
  next
    case False
    then have "interleave_idx out packets idx = idx"
      by (subst interleave_idx.simps) auto
    with "1.prems" show ?thesis by simp
  qed
qed

lemma interleave_idx_at:
  "interleave_idx out packets idx < length packets \<Longrightarrow>
   output_ts_us out <s output_ts_us (packets ! interleave_idx out packets idx)"
proof (induction out packets idx rule: interleave_idx.induct)
  case (1 out packets idx)
  show ?case
  proof (cases "idx < length packets \<and> \<not> output_ts_us out <s output_ts_us (packets ! idx)")
    case True
    then have eq: "interleave_idx out packets idx = interleave_idx out packets (idx + 1)"
      by (subst interleave_idx.simps) simp
    from "1.IH" True "1.prems" eq show ?thesis by simp
  next
    case False
    then have eq: "interleave_idx out packets idx = idx"
      by (subst interleave_idx.simps) auto
    with "1.prems" False show ?thesis by simp
  qed
qed

lemma da_insert_keeps_sorted:
  assumes "ts_sorted xs"
  shows "ts_sorted (da_insert xs (interleave_idx out xs 0) out)"
proof -
  let ?i = "interleave_idx out xs 0"
  let ?f = "\<lambda>x. sint (output_ts_us x)"
  from interleave_idx_bounds [of 0 xs out] have le: "?i \<le> length xs" by simp
  have before: "\<forall>x \<in> set (take ?i xs). ?f x \<le> ?f out"
  proof
    fix x assume "x \<in> set (take ?i xs)"
    then obtain j where j: "j < ?i" "j < length xs" "x = xs ! j"
      by (auto simp add: in_set_conv_nth)
    from interleave_idx_before [of 0 j out xs] j
    have "\<not> output_ts_us out <s output_ts_us x" by simp
    then show "?f x \<le> ?f out" by (simp add: word_sless_alt)
  qed
  have after: "\<forall>y \<in> set (drop ?i xs). ?f out \<le> ?f y"
  proof
    fix y assume "y \<in> set (drop ?i xs)"
    then obtain k where "k < length (drop ?i xs)" "y = drop ?i xs ! k"
      by (auto simp add: in_set_conv_nth)
    with le have k: "?i + k < length xs" "y = xs ! (?i + k)" by auto
    then have lt: "?i < length xs" by simp
    from interleave_idx_at [OF lt] have a: "?f out < ?f (xs ! ?i)"
      by (simp add: word_sless_alt)
    from assms k have "?f (xs ! ?i) \<le> ?f (xs ! (?i + k))"
      unfolding ts_sorted_def
      by (metis (no_types, lifting) le_add1 length_map nth_map lt sorted_nth_mono)
    with a k show "?f out \<le> ?f y" by simp
  qed
  from assms have "sorted (map ?f (take ?i xs) @ map ?f (drop ?i xs))"
    unfolding ts_sorted_def by (metis append_take_drop_id map_append)
  then have "sorted (map ?f (take ?i xs) @ ?f out # map ?f (drop ?i xs))"
    using before after by (auto simp add: sorted_append)
  then show ?thesis by (simp add: ts_sorted_def da_insert_def)
qed


text \<open>
  One call keeps a sorted buffer sorted. What it hands to the sink or leaves in the
  buffer is the packet field of the local \<open>out\<close> as it came in, or of an entry that
  was in the buffer before: never the copy \<^verbatim>\<open>prepare_interleaved_packet\<close> made.
\<close>

lemma prepare_interleaved_packet_buffer:
  "prepare_interleaved_packet output out p = Inr (ok, output', out', evs) \<Longrightarrow>
   interleaved_packets output' = interleaved_packets output"
  by (auto simp add: prepare_interleaved_packet_def Let_def
      split: sum.splits if_splits dest!: rebase_packet_output)

lemma prepare_interleaved_packet_rejected:
  "prepare_interleaved_packet output out p = Inr (False, output', out', evs) \<Longrightarrow>
   output' = output \<and> packet out' = packet out \<and> output_ts_us out' = output_ts_us out \<and>
   evs = []"
  by (auto simp add: prepare_interleaved_packet_def rebase_packet_def
      obs_duplicate_encoder_packet_def Let_def split: sum.splits if_splits)

lemma ts_sorted_tl: "ts_sorted xs \<Longrightarrow> ts_sorted (tl xs)"
  by (cases xs) (simp_all add: ts_sorted_def)

lemma interleave_packets_keeps_sorted:
  assumes "interleave_packets output out p = Inr (output', evs)"
      and "ts_sorted (interleaved_packets output)"
  shows "ts_sorted (interleaved_packets output')"
proof (cases "prepare_interleaved_packet output out p")
  case (Inl e)
  with assms show ?thesis by (simp add: interleave_packets_def)
next
  case (Inr r)
  then obtain ok output1 out1 evs1
    where r: "prepare_interleaved_packet output out p = Inr (ok, output1, out1, evs1)"
    by (cases r) auto
  from prepare_interleaved_packet_buffer [OF r]
  have buf: "interleaved_packets output1 = interleaved_packets output" .
  show ?thesis
  proof (cases ok)
    case True
    with assms r buf show ?thesis by (simp add: interleave_packets_def)
  next
    case False
    let ?buffer = "da_insert (interleaved_packets output1)
        (interleave_idx out1 (interleaved_packets output1) 0) out1"
    from assms(2) buf have s: "ts_sorted ?buffer"
      by (simp add: da_insert_keeps_sorted)
    from assms(1) r False have "interleaved_packets output' = ?buffer \<or>
        interleaved_packets output' = tl ?buffer"
      by (auto simp add: interleave_packets_def send_interleaved_def da_erase_def Let_def
          split: if_splits list.splits)
    with s show ?thesis by (auto simp add: ts_sorted_tl)
  qed
qed

lemma interleave_packets_delivers_only_uninitialised:
  assumes "interleave_packets output out p = Inr (output', evs)"
  shows "set (released evs) \<union> packet ` set (interleaved_packets output') \<subseteq>
           insert (packet out) (packet ` set (interleaved_packets output))"
proof (cases "prepare_interleaved_packet output out p")
  case (Inl e)
  with assms show ?thesis by (simp add: interleave_packets_def)
next
  case (Inr r)
  then obtain ok output1 out1 evs1
    where r: "prepare_interleaved_packet output out p = Inr (ok, output1, out1, evs1)"
    by (cases r) auto
  show ?thesis
  proof (cases ok)
    case True
    from r True have "evs1 = [Duplicate_encoder_packet p]"
      by (auto simp add: prepare_interleaved_packet_def rebase_packet_def
          obs_duplicate_encoder_packet_def Let_def split: sum.splits if_splits)
    with assms r True prepare_interleaved_packet_buffer [OF r] show ?thesis
      by (auto simp add: interleave_packets_def)
  next
    case False
    with r prepare_interleaved_packet_rejected [of "output" out p output1 out1 evs1]
    have e: "output1 = output" "packet out1 = packet out" "evs1 = []" by auto
    let ?buffer = "da_insert (interleaved_packets output)
        (interleave_idx out1 (interleaved_packets output) 0) out1"
    have b: "packet ` set ?buffer = insert (packet out) (packet ` set (interleaved_packets output))"
      using e(2) by (auto simp add: da_insert_def dest: in_set_takeD in_set_dropD)
         (metis append_take_drop_id Un_iff set_append image_eqI)
    from assms r False e have
      "(interleaved_packets output' = ?buffer \<and> evs = []) \<or>
       (interleaved_packets output' = tl ?buffer \<and>
        released evs = [packet (hd ?buffer)] \<and> ?buffer \<noteq> [])"
      by (auto simp add: interleave_packets_def send_interleaved_def da_erase_def
          free_il_packet_def Let_def split: if_splits list.splits)
    then show ?thesis
    proof
      assume "interleaved_packets output' = ?buffer \<and> evs = []"
      with b show ?thesis by simp
    next
      assume a: "interleaved_packets output' = tl ?buffer \<and>
        released evs = [packet (hd ?buffer)] \<and> ?buffer \<noteq> []"
      then have "set (tl ?buffer) \<subseteq> set ?buffer" "hd ?buffer \<in> set ?buffer"
        by (auto dest: list.set_sel(2))
      with a b show ?thesis by auto
    qed
  qed
qed

text \<open>
  Claim C1 says that a call of \<^verbatim>\<open>interleave_packets\<close> with a packet the interleaver
  accepts (any video packet; an audio packet at or after the first video timestamp once
  video has been received) inserts the prepared packet into the pending buffer at its
  sorted position and then, when both streams have been received, releases the front
  of the buffer to the sink. The code does not: line 414 enters the insertion only when
  \<^verbatim>\<open>prepare_interleaved_packet\<close> returns false. For every accepted packet whose
  timebase denominator is not zero the call returns with the buffer as it was and with
  nothing handed to the sink; the prepared copy is dropped.
\<close>

theorem interleave_packets_accepted_not_buffered:
  assumes "convert_packet_dts p = Inr ts"
      and "packet_type p = OBS_ENCODER_VIDEO \<or>
           (received_video output \<and> \<not> ts <s first_video_ts output)"
  shows "\<exists>output' evs. interleave_packets output out p = Inr (output', evs) \<and>
           interleaved_packets output' = interleaved_packets output \<and> released evs = []"
proof -
  from assms(1) have den: "timebase_den p \<noteq> 0"
    by (auto simp add: convert_packet_dts_def split: if_splits)
  show ?thesis
    using assms den
    by (cases "packet_type p")
       (auto simp add: interleave_packets_def prepare_interleaved_packet_def rebase_packet_def
          obs_duplicate_encoder_packet_def Let_def convert_packet_dts_def)
qed

theorem interleave_packets_accepted_not_buffered_witness:
  "(\<exists>output' evs.
      interleave_packets example_output (stack_garbage 0) (video_packet 100) =
        Inr (output', evs) \<and>
      interleaved_packets output' = [] \<and> released evs = []) \<and>
   (\<exists>output' evs.
      interleave_packets (example_output\<lparr>received_video := True\<rparr>) (stack_garbage 0)
        (audio_packet 100) = Inr (output', evs) \<and>
      interleaved_packets output' = [] \<and> released evs = [])"
  using interleave_packets_accepted_not_buffered
          [of "video_packet 100" 100000000 example_output "stack_garbage 0"]
        interleave_packets_accepted_not_buffered
          [of "audio_packet 100" 100000000 "example_output\<lparr>received_video := True\<rparr>"
              "stack_garbage 0"]
  by (simp add: convert_packet_dts_def c_sdiv_def MICROSECOND_DEN_def example_defs
      word_sless_alt)

text \<open>
  Claim C2 says that an audio packet that arrives before any video packet, or whose
  microsecond timestamp is below the first video timestamp, is discarded: never
  entered into the pending buffer, never released, its payload never duplicated. The
  code duplicates nothing, but it runs the insertion for exactly these packets: the
  local \<^verbatim>\<open>out\<close>, of which only \<^verbatim>\<open>input_ts_us\<close> has been written, is inserted into
  the buffer at the position its uninitialised \<^verbatim>\<open>output_ts_us\<close> selects, and when
  both streams count as received the front of the buffer goes to the sink.
\<close>

theorem interleave_packets_discarded_buffered:
  assumes "convert_packet_dts p = Inr ts"
      and "packet_type p = OBS_ENCODER_AUDIO"
      and "\<not> received_video output \<or> ts <s first_video_ts output"
  shows "interleave_packets output out p =
     (let out' = out\<lparr>input_ts_us := ts\<rparr>;
          buffer = da_insert (interleaved_packets output)
                     (interleave_idx out' (interleaved_packets output) 0) out'
      in if received_audio output \<and> received_video output
         then Inr (output\<lparr>interleaved_packets := tl buffer\<rparr>,
                   [Info_encoded_packet (data output) (packet (hd buffer)),
                    Free_encoder_packet (packet (hd buffer))])
         else Inr (output\<lparr>interleaved_packets := buffer\<rparr>, []))"
  using assms
  by (auto simp add: interleave_packets_def prepare_interleaved_packet_def Let_def
      send_interleaved_def free_il_packet_def da_insert_def da_erase_def
      split: list.splits)

theorem interleave_packets_discarded_buffered_witness:
  "interleave_packets example_output (stack_garbage 5) (audio_packet 50) =
     Inr (example_output
            \<lparr>interleaved_packets := [(stack_garbage 5)\<lparr>input_ts_us := 50000000\<rparr>]\<rparr>, []) \<and>
   interleave_packets
     (example_output\<lparr>received_video := True, received_audio := True,
                      first_video_ts := 100000000\<rparr>)
     (stack_garbage 5) (audio_packet 50) =
     Inr (example_output\<lparr>received_video := True, received_audio := True,
                          first_video_ts := 100000000\<rparr>,
          [Info_encoded_packet (Some 10) (packet (stack_garbage 5)),
           Free_encoder_packet (packet (stack_garbage 5))])"
  using interleave_packets_discarded_buffered
          [of "audio_packet 50" 50000000 example_output "stack_garbage 5"]
        interleave_packets_discarded_buffered
          [of "audio_packet 50" 50000000
              "example_output\<lparr>received_video := True, received_audio := True,
                               first_video_ts := 100000000\<rparr>" "stack_garbage 5"]
  by (simp add: convert_packet_dts_def c_sdiv_def MICROSECOND_DEN_def example_defs
      word_sless_alt interleave_idx_eval da_insert_def)

subsection \<open>Readiness\<close>

text \<open>
  Claim C5: \<^verbatim>\<open>obs_output_can_begin_data_capture\<close> answers true exactly when the handle
  is not NULL, the output is not active, and no requested and capable medium lacks its
  producer: with the effective flags being the type's flags when the requested flags
  are 0 and their intersection with the type's flags otherwise, video needs the video
  encoder in encoded mode and the video pipeline in raw mode, and audio likewise.
\<close>

theorem can_begin_data_capture_gating:
  "obs_output_can_begin_data_capture bits w output flgs \<longleftrightarrow>
     (\<exists>p. output = Some p \<and> \<not> active (outputs w p) \<and>
        (let out = outputs w p;
             effective = (if flgs = 0 then flags (info out) else flgs AND flags (info out));
             encoded = (flags (info out) AND OBS_OUTPUT_ENCODED bits \<noteq> 0);
             has_video = (effective AND OBS_OUTPUT_VIDEO bits \<noteq> 0);
             has_audio = (effective AND OBS_OUTPUT_AUDIO bits \<noteq> 0)
         in \<not> (has_video \<and> encoded \<and> video_encoder out = None) \<and>
            \<not> (has_video \<and> \<not> encoded \<and> video out = None) \<and>
            \<not> (has_audio \<and> encoded \<and> audio_encoder out = None) \<and>
            \<not> (has_audio \<and> \<not> encoded \<and> audio out = None)))"
proof (cases "output")
  case None
  then show ?thesis by (simp add: obs_output_can_begin_data_capture_def)
next
  case (Some p)
  then show ?thesis
    by (simp add: obs_output_can_begin_data_capture_def convert_flags_def
        can_begin_data_capture_def Let_def)
qed

theorem can_begin_data_capture_gating_witness:
  "obs_output_can_begin_data_capture example_bits example_world (Some 1) 0 \<and>
   \<not> obs_output_can_begin_data_capture example_bits example_world (Some 2) 0 \<and>
   \<not> obs_output_can_begin_data_capture example_bits example_world None 0 \<and>
   \<not> obs_output_can_begin_data_capture example_bits
       (example_world\<lparr>outputs := (outputs example_world)
          (1 := example_output\<lparr>active := True\<rparr>)\<rparr>) (Some 1) 0"
  by (simp add: can_begin_data_capture_gating example_world_def example_bits_def example_defs)

subsection \<open>Capture start and end\<close>

lemma hook_data_capture_eq:
  assumes "convert_flags bits (outputs w p) flgs = (encoded, has_video, has_audio)"
  shows "hook_data_capture w p encoded has_video has_audio =
     w\<lparr>outputs :=
          (if encoded then (outputs w)(p := (outputs w p)\<lparr>received_video := False\<rparr>)
           else outputs w),
       trace := trace w @ spec_hook_events bits p (outputs w p) flgs\<rparr>"
  using assms
  by (auto simp add: hook_data_capture_def spec_hook_events_def spec_effective_flags_def
      convert_flags_def Let_def world_simps)

lemma begin_data_capture_refused:
  "\<not> obs_output_can_begin_data_capture bits w output flgs \<Longrightarrow>
   obs_output_begin_data_capture bits w output flgs = Inr (False, w)"
  by (cases "output")
     (auto simp add: obs_output_can_begin_data_capture_def obs_output_begin_data_capture_def
        split: prod.splits)

lemma begin_data_capture_accepted:
  assumes "obs_output_can_begin_data_capture bits w (Some p) flgs"
  shows "obs_output_begin_data_capture bits w (Some p) flgs =
     Inr (True,
       w\<lparr>outputs := (outputs w)
          (p := (outputs w p)
             \<lparr>received_video :=
                 (if flags (info (outputs w p)) AND OBS_OUTPUT_ENCODED bits \<noteq> 0 then False
                  else received_video (outputs w p)),
              active := True\<rparr>),
         trace := trace w @ spec_hook_events bits p (outputs w p) flgs @
          [Signal (signals (outputs w p)) ''start''
             [(''code'', Cd_int OBS_OUTPUT_SUCCESS), (''output'', Cd_ptr (Some p))]]\<rparr>)"
proof -
  obtain encoded has_video has_audio
    where cf: "convert_flags bits (outputs w p) flgs = (encoded, has_video, has_audio)"
    by (cases "convert_flags bits (outputs w p) flgs") auto
  from cf have enc: "encoded = (flags (info (outputs w p)) AND OBS_OUTPUT_ENCODED bits \<noteq> 0)"
    by (auto simp add: convert_flags_def Let_def)
  from assms cf have ok: "can_begin_data_capture (outputs w p) encoded has_video has_audio"
    and inactive: "\<not> active (outputs w p)"
    by (auto simp add: obs_output_can_begin_data_capture_def split: if_splits)
  have "obs_output_begin_data_capture bits w (Some p) flgs =
      Inr (True,
        emit (update_output (hook_data_capture w p encoded has_video has_audio) p
                (\<lambda>out. out\<lparr>active := True\<rparr>))
          (Signal (signals (outputs (hook_data_capture w p encoded has_video has_audio) p))
             ''start'' [(''code'', Cd_int OBS_OUTPUT_SUCCESS), (''output'', Cd_ptr (Some p))]))"
    using ok inactive
    by (simp add: obs_output_begin_data_capture_def cf signal_start_def Let_def world_simps)
  also have "\<dots> = Inr (True,
       w\<lparr>outputs := (outputs w)
          (p := (outputs w p)
             \<lparr>received_video :=
                 (if flags (info (outputs w p)) AND OBS_OUTPUT_ENCODED bits \<noteq> 0 then False
                  else received_video (outputs w p)),
              active := True\<rparr>),
         trace := trace w @ spec_hook_events bits p (outputs w p) flgs @
          [Signal (signals (outputs w p)) ''start''
             [(''code'', Cd_int OBS_OUTPUT_SUCCESS), (''output'', Cd_ptr (Some p))]]\<rparr>)"
    unfolding hook_data_capture_eq [OF cf]
    by (cases encoded) (simp_all add: enc [symmetric] world_simps)
  finally show ?thesis .
qed

lemma begin_data_capture_success_ready:
  assumes "obs_output_begin_data_capture bits w output flgs = Inr (True, w')"
  shows "obs_output_can_begin_data_capture bits w output flgs"
proof (rule ccontr)
  assume "\<not> ?thesis"
  from begin_data_capture_refused [OF this] assms show False by simp
qed

lemma end_data_capture_eq:
  "obs_output_end_data_capture bits w output =
     (case output of
        None \<Rightarrow> Inr w
      | Some p \<Rightarrow>
          if \<not> active (outputs w p) then Inr w
          else Inr (w\<lparr>outputs := (outputs w)(p := (outputs w p)\<lparr>active := False\<rparr>),
                      trace := trace w @ spec_unhook_events bits p (outputs w p) @
                        [Signal (signals (outputs w p)) ''stop''
                           [(''output'', Cd_ptr (Some p))]]\<rparr>))"
  by (cases "output")
     (auto simp add: obs_output_end_data_capture_def convert_flags_def spec_unhook_events_def
        signal_stop_def Let_def world_simps)

lemma set_video_encoder_active:
  "active (outputs (obs_output_set_video_encoder w h e) p) = active (outputs w p)"
  by (auto simp add: obs_output_set_video_encoder_def obs_encoder_remove_output_def
      obs_encoder_add_output_def Let_def world_simps split: option.splits)

lemma set_audio_encoder_active:
  "active (outputs (obs_output_set_audio_encoder w h e) p) = active (outputs w p)"
  by (auto simp add: obs_output_set_audio_encoder_def obs_encoder_remove_output_def
      obs_encoder_add_output_def Let_def world_simps split: option.splits)

text \<open>
  Of the operations of the model, only a capture start whose readiness check holds
  takes an output from inactive to active.
\<close>

lemma activation_only_by_begin:
  assumes "apply_operation bits w op = Inr w'"
      and "\<not> active (outputs w p)" and "active (outputs w' p)"
  shows "\<exists>flgs. op = Op_begin_data_capture (Some p) flgs \<and>
           obs_output_can_begin_data_capture bits w (Some p) flgs"
proof (cases op)
  case (Op_begin_data_capture h flgs)
  show ?thesis
  proof (cases "obs_output_can_begin_data_capture bits w h flgs")
    case False
    from begin_data_capture_refused [OF False] assms Op_begin_data_capture
    show ?thesis by simp
  next
    case True
    then obtain q where h: "h = Some q"
      by (cases h) (auto simp add: obs_output_can_begin_data_capture_def)
    from begin_data_capture_accepted [of bits w q flgs] True h assms Op_begin_data_capture
    have "q = p" by (auto split: if_splits)
    with True h Op_begin_data_capture show ?thesis by simp
  qed
next
  case (Op_end_data_capture h)
  with assms show ?thesis
    by (auto simp add: end_data_capture_eq split: option.splits if_splits)
next
  case (Op_signal_start_fail h code)
  with assms show ?thesis
    by (auto simp add: obs_output_signal_start_fail_def signal_start_def world_simps
        split: option.splits)
next
  case (Op_interleave_packets q out pkt)
  with assms show ?thesis
    by (auto split: sum.splits if_splits dest: interleave_packets_active)
qed (use assms in \<open>auto simp add: obs_output_start_def obs_output_stop_def obs_output_update_def
      obs_output_pause_def obs_output_set_media_def obs_output_remove_encoder_def
      obs_output_set_video_conversion_def obs_output_set_audio_conversion_def
      set_video_encoder_active set_audio_encoder_active
      Let_def world_simps split: option.splits if_splits\<close>)

lemma can_begin_example:
  "obs_output_can_begin_data_capture example_bits example_world (Some 1) 0"
  by (simp add: obs_output_can_begin_data_capture_def convert_flags_def
      can_begin_data_capture_def example_world_def example_bits_def example_defs)

lemma first_session_run:
  "run_operations example_bits example_world first_session = Inr after_first_session"
  by (simp add: first_session_def after_first_session_def capture_defs
      example_world_def example_bits_def interleave_defs example_defs)

lemma can_begin_after_first_session:
  "obs_output_can_begin_data_capture example_bits after_first_session (Some 1) 0"
  by (simp add: after_first_session_def capture_defs example_world_def example_bits_def
      example_defs)

text \<open>
  Claim C6: when the readiness check fails, \<^verbatim>\<open>obs_output_begin_data_capture\<close> returns
  false and leaves the store and the trace as they were (active flag, AV-sync state,
  hooks, no notification). When it holds, the call returns true; the output is active;
  in encoded mode \<^verbatim>\<open>received_video\<close> is cleared; nothing else in the store changes;
  and the trace gains the hooks of the producers followed by one \<open>start\<close> signal
  carrying the success code and the output. Among the operations of the model no other
  takes an output from inactive to active.
\<close>

theorem begin_data_capture_transition:
  "(\<not> obs_output_can_begin_data_capture bits w output flgs \<longrightarrow>
      obs_output_begin_data_capture bits w output flgs = Inr (False, w)) \<and>
   (obs_output_can_begin_data_capture bits w output flgs \<longrightarrow>
      (\<exists>p. output = Some p \<and>
         obs_output_begin_data_capture bits w output flgs =
           Inr (True,
             w\<lparr>outputs := (outputs w)
                  (p := (outputs w p)
                     \<lparr>received_video :=
                         (if flags (info (outputs w p)) AND OBS_OUTPUT_ENCODED bits \<noteq> 0
                          then False else received_video (outputs w p)),
                      active := True\<rparr>),
               trace := trace w @ spec_hook_events bits p (outputs w p) flgs @
                 [Signal (signals (outputs w p)) ''start''
                    [(''code'', Cd_int OBS_OUTPUT_SUCCESS),
                     (''output'', Cd_ptr (Some p))]]\<rparr>))) \<and>
   (\<forall>op p w'. apply_operation bits w op = Inr w' \<and> \<not> active (outputs w p) \<and>
        active (outputs w' p) \<longrightarrow>
      (\<exists>flgs'. op = Op_begin_data_capture (Some p) flgs' \<and>
         obs_output_can_begin_data_capture bits w (Some p) flgs'))"
proof (intro conjI impI allI)
  assume "\<not> obs_output_can_begin_data_capture bits w output flgs"
  then show "obs_output_begin_data_capture bits w output flgs = Inr (False, w)"
    by (rule begin_data_capture_refused)
next
  assume ok: "obs_output_can_begin_data_capture bits w output flgs"
  then obtain p where p: "output = Some p"
    by (cases "output") (auto simp add: obs_output_can_begin_data_capture_def)
  from begin_data_capture_accepted [of bits w p flgs] ok p
  show "\<exists>p. output = Some p \<and>
         obs_output_begin_data_capture bits w output flgs =
           Inr (True,
             w\<lparr>outputs := (outputs w)
                  (p := (outputs w p)
                     \<lparr>received_video :=
                         (if flags (info (outputs w p)) AND OBS_OUTPUT_ENCODED bits \<noteq> 0
                          then False else received_video (outputs w p)),
                      active := True\<rparr>),
               trace := trace w @ spec_hook_events bits p (outputs w p) flgs @
                 [Signal (signals (outputs w p)) ''start''
                    [(''code'', Cd_int OBS_OUTPUT_SUCCESS),
                     (''output'', Cd_ptr (Some p))]]\<rparr>)"
    by simp
next
  fix op p w'
  assume "apply_operation bits w op = Inr w' \<and> \<not> active (outputs w p) \<and>
        active (outputs w' p)"
  then show "\<exists>flgs'. op = Op_begin_data_capture (Some p) flgs' \<and>
         obs_output_can_begin_data_capture bits w (Some p) flgs'"
    using activation_only_by_begin by blast
qed

theorem begin_data_capture_transition_witness:
  "\<not> obs_output_can_begin_data_capture example_bits example_world (Some 2) 0 \<and>
   obs_output_begin_data_capture example_bits example_world (Some 2) 0 =
     Inr (False, example_world) \<and>
   obs_output_can_begin_data_capture example_bits example_world (Some 1) 0 \<and>
   (\<exists>w'. obs_output_begin_data_capture example_bits example_world (Some 1) 0 = Inr (True, w') \<and>
      active (outputs w' 1) \<and>
      trace w' =
        [Encoder_start (Some 5) Cb_interleave_packets (Param_output 1),
         Encoder_start (Some 6) Cb_interleave_packets (Param_output 1),
         Signal (Some 12) ''start'' [(''code'', Cd_int 0), (''output'', Cd_ptr (Some 1))]] \<and>
      apply_operation example_bits example_world (Op_begin_data_capture (Some 1) 0) = Inr w' \<and>
      \<not> active (outputs example_world 1))"
proof -
  have no: "\<not> obs_output_can_begin_data_capture example_bits example_world (Some 2) 0"
    by (simp add: capture_defs example_world_def example_bits_def example_defs)
  have inactive: "\<not> active (outputs example_world 1)"
    by (simp add: example_world_def example_defs)
  note t = begin_data_capture_transition [of example_bits example_world]
  from t [of "Some 2" 0] no
  have refused: "obs_output_begin_data_capture example_bits example_world (Some 2) 0 =
     Inr (False, example_world)" by blast
  from t [of "Some 1" 0] can_begin_example
  obtain w' where
    b: "obs_output_begin_data_capture example_bits example_world (Some 1) 0 = Inr (True, w')"
    and w': "w' = example_world
       \<lparr>outputs := (outputs example_world)
          (1 := (outputs example_world 1)
             \<lparr>received_video :=
                 (if flags (info (outputs example_world 1)) AND
                       OBS_OUTPUT_ENCODED example_bits \<noteq> 0
                  then False else received_video (outputs example_world 1)),
              active := True\<rparr>),
         trace := trace example_world @
           spec_hook_events example_bits 1 (outputs example_world 1) 0 @
           [Signal (signals (outputs example_world 1)) ''start''
              [(''code'', Cd_int OBS_OUTPUT_SUCCESS), (''output'', Cd_ptr (Some 1))]]\<rparr>"
    by auto
  from w' have a: "active (outputs w' 1)" by simp
  from w' have tr: "trace w' =
        [Encoder_start (Some 5) Cb_interleave_packets (Param_output 1),
         Encoder_start (Some 6) Cb_interleave_packets (Param_output 1),
         Signal (Some 12) ''start'' [(''code'', Cd_int 0), (''output'', Cd_ptr (Some 1))]]"
    by (simp add: spec_hook_events_def spec_effective_flags_def OBS_OUTPUT_SUCCESS_def
        example_world_def example_bits_def example_defs)
  from b have op: "apply_operation example_bits example_world
       (Op_begin_data_capture (Some 1) 0) = Inr w'" by simp
  from no refused can_begin_example b a tr op inactive show ?thesis by blast
qed

text \<open>
  Claim C7 says that every successful capture start resets both AV-sync flags,
  \<^verbatim>\<open>received_video\<close> and \<^verbatim>\<open>received_audio\<close>, so that nothing of an earlier session
  carries over. The code assigns \<^verbatim>\<open>received_video\<close> twice (lines 442 and 443) and
  never \<^verbatim>\<open>received_audio\<close>: a successful start leaves \<^verbatim>\<open>received_audio\<close> as it
  found it, and after a session that received audio it is still set.
\<close>

theorem begin_data_capture_keeps_received_audio:
  assumes "obs_output_begin_data_capture bits w (Some p) flgs = Inr (True, w')"
  shows "received_audio (outputs w' p) = received_audio (outputs w p)"
proof -
  from assms have "obs_output_can_begin_data_capture bits w (Some p) flgs"
    by (rule begin_data_capture_success_ready)
  from begin_data_capture_accepted [OF this] assms show ?thesis by auto
qed

theorem begin_data_capture_keeps_received_audio_witness:
  "run_operations example_bits example_world first_session = Inr after_first_session \<and>
   received_audio (outputs after_first_session 1) \<and>
   (\<exists>w'. obs_output_begin_data_capture example_bits after_first_session (Some 1) 0 =
            Inr (True, w') \<and>
          \<not> received_video (outputs w' 1) \<and> received_audio (outputs w' 1))"
proof -
  have stale: "received_audio (outputs after_first_session 1)"
    by (simp add: after_first_session_def)
  have b: "obs_output_begin_data_capture example_bits after_first_session (Some 1) 0 =
      Inr (True, after_first_session
        \<lparr>outputs := (outputs after_first_session)
          (1 := (outputs after_first_session 1)
             \<lparr>received_video :=
                 (if flags (info (outputs after_first_session 1)) AND
                       OBS_OUTPUT_ENCODED example_bits \<noteq> 0
                  then False else received_video (outputs after_first_session 1)),
              active := True\<rparr>),
         trace := trace after_first_session @
           spec_hook_events example_bits 1 (outputs after_first_session 1) 0 @
           [Signal (signals (outputs after_first_session 1)) ''start''
              [(''code'', Cd_int OBS_OUTPUT_SUCCESS), (''output'', Cd_ptr (Some 1))]]\<rparr>)"
    (is "_ = Inr (True, ?w')")
    by (rule begin_data_capture_accepted [OF can_begin_after_first_session])
  have v: "\<not> received_video (outputs ?w' 1)"
    by (simp add: after_first_session_def example_world_def example_bits_def example_defs)
  from begin_data_capture_keeps_received_audio [OF b] stale
  have "received_audio (outputs ?w' 1)" by blast
  with first_session_run stale b v show ?thesis by blast
qed

text \<open>
  Claim C8: \<^verbatim>\<open>obs_output_end_data_capture\<close> does nothing on a NULL handle or an
  inactive output. On an active output it unhooks according to the type's full flag
  set (stopping the encoders, or disconnecting the raw pipelines), clears the active
  flag and emits the \<open>stop\<close> signal, in that order in the trace. The flags given to
  the capture start play no part: after a successful start with any flags, the end of
  capture unhooks by the full set.
\<close>

theorem end_data_capture_full_flags:
  "obs_output_end_data_capture bits w output =
     (case output of
        None \<Rightarrow> Inr w
      | Some p \<Rightarrow>
          if \<not> active (outputs w p) then Inr w
          else Inr (w\<lparr>outputs := (outputs w)(p := (outputs w p)\<lparr>active := False\<rparr>),
                      trace := trace w @ spec_unhook_events bits p (outputs w p) @
                        [Signal (signals (outputs w p)) ''stop''
                           [(''output'', Cd_ptr (Some p))]]\<rparr>)) \<and>
   (obs_output_begin_data_capture bits w (Some p) flgs = Inr (True, w1) \<longrightarrow>
      (\<exists>w2. obs_output_end_data_capture bits w1 (Some p) = Inr w2 \<and>
         \<not> active (outputs w2 p) \<and>
         trace w2 = trace w1 @ spec_unhook_events bits p (outputs w p) @
           [Signal (signals (outputs w p)) ''stop'' [(''output'', Cd_ptr (Some p))]]))"
proof (intro conjI impI)
  show "obs_output_end_data_capture bits w output =
     (case output of
        None \<Rightarrow> Inr w
      | Some p \<Rightarrow>
          if \<not> active (outputs w p) then Inr w
          else Inr (w\<lparr>outputs := (outputs w)(p := (outputs w p)\<lparr>active := False\<rparr>),
                      trace := trace w @ spec_unhook_events bits p (outputs w p) @
                        [Signal (signals (outputs w p)) ''stop''
                           [(''output'', Cd_ptr (Some p))]]\<rparr>))"
    by (rule end_data_capture_eq)
next
  assume b: "obs_output_begin_data_capture bits w (Some p) flgs = Inr (True, w1)"
  then have "obs_output_can_begin_data_capture bits w (Some p) flgs"
    by (rule begin_data_capture_success_ready)
  from begin_data_capture_accepted [OF this] b
  show "\<exists>w2. obs_output_end_data_capture bits w1 (Some p) = Inr w2 \<and>
         \<not> active (outputs w2 p) \<and>
         trace w2 = trace w1 @ spec_unhook_events bits p (outputs w p) @
           [Signal (signals (outputs w p)) ''stop'' [(''output'', Cd_ptr (Some p))]]"
    by (auto simp add: end_data_capture_eq spec_unhook_events_def Let_def)
qed

text \<open>
  An instance: the capture of the example output is started with the video flag only, so
  that only the video encoder is started, with the sink's own callback; the end of
  capture stops both encoders with the interleaving callback.
\<close>

theorem end_data_capture_full_flags_witness:
  "\<exists>w1 w2.
     obs_output_begin_data_capture example_bits example_world (Some 1) 1 = Inr (True, w1) \<and>
     trace w1 =
       [Encoder_start (Some 5) Cb_info_encoded_packet (Param_data (Some 10)),
        Signal (Some 12) ''start'' [(''code'', Cd_int 0), (''output'', Cd_ptr (Some 1))]] \<and>
     obs_output_end_data_capture example_bits w1 (Some 1) = Inr w2 \<and>
     \<not> active (outputs w2 1) \<and>
     trace w2 = trace w1 @
       [Encoder_stop (Some 5) Cb_interleave_packets (Param_output 1),
        Encoder_stop (Some 6) Cb_interleave_packets (Param_output 1),
        Signal (Some 12) ''stop'' [(''output'', Cd_ptr (Some 1))]]"
proof -
  have ok: "obs_output_can_begin_data_capture example_bits example_world (Some 1) 1"
    by (simp add: capture_defs example_world_def example_bits_def example_defs)
  from begin_data_capture_accepted [OF ok] obtain w1 where
    b: "obs_output_begin_data_capture example_bits example_world (Some 1) 1 = Inr (True, w1)"
    and tr: "trace w1 = trace example_world @
        spec_hook_events example_bits 1 (outputs example_world 1) 1 @
        [Signal (signals (outputs example_world 1)) ''start''
           [(''code'', Cd_int OBS_OUTPUT_SUCCESS), (''output'', Cd_ptr (Some 1))]]"
    by simp
  from tr have tr1: "trace w1 =
       [Encoder_start (Some 5) Cb_info_encoded_packet (Param_data (Some 10)),
        Signal (Some 12) ''start'' [(''code'', Cd_int 0), (''output'', Cd_ptr (Some 1))]]"
    by (simp add: spec_hook_events_def spec_effective_flags_def OBS_OUTPUT_SUCCESS_def
        example_world_def example_bits_def example_defs)
  from end_data_capture_full_flags [of example_bits example_world "Some 1" 1 1 w1] b
  obtain w2 where
    e: "obs_output_end_data_capture example_bits w1 (Some 1) = Inr w2"
    and ia: "\<not> active (outputs w2 1)"
    and tr2: "trace w2 = trace w1 @ spec_unhook_events example_bits 1 (outputs example_world 1) @
           [Signal (signals (outputs example_world 1)) ''stop''
              [(''output'', Cd_ptr (Some 1))]]"
    by blast
  from tr2 have "trace w2 = trace w1 @
       [Encoder_stop (Some 5) Cb_interleave_packets (Param_output 1),
        Encoder_stop (Some 6) Cb_interleave_packets (Param_output 1),
        Signal (Some 12) ''stop'' [(''output'', Cd_ptr (Some 1))]]"
    by (simp add: spec_unhook_events_def example_world_def example_bits_def example_defs)
  with b tr1 e ia show ?thesis by blast
qed

subsection \<open>Encoder binding\<close>

lemma set_video_encoder_unchanged:
  "video_encoder (outputs w p) = encoder \<Longrightarrow>
   obs_output_set_video_encoder w (Some p) encoder = w"
  "encoder_type (encoders w e) \<noteq> OBS_ENCODER_VIDEO \<Longrightarrow>
   obs_output_set_video_encoder w (Some p) (Some e) = w"
  by (simp_all add: obs_output_set_video_encoder_def)

lemma set_audio_encoder_unchanged:
  "audio_encoder (outputs w p) = encoder \<Longrightarrow>
   obs_output_set_audio_encoder w (Some p) encoder = w"
  "encoder_type (encoders w e) \<noteq> OBS_ENCODER_AUDIO \<Longrightarrow>
   obs_output_set_audio_encoder w (Some p) (Some e) = w"
  by (simp_all add: obs_output_set_audio_encoder_def)

lemma set_video_encoder_links_new:
  assumes "video_encoder (outputs w p) \<noteq> Some e"
      and "encoder_type (encoders w e) = OBS_ENCODER_VIDEO"
  shows "video_encoder (outputs (obs_output_set_video_encoder w (Some p) (Some e)) p) = Some e"
    and "p \<in> encoder_outputs (encoders (obs_output_set_video_encoder w (Some p) (Some e)) e)"
  using assms
  by (auto simp add: obs_output_set_video_encoder_def obs_encoder_remove_output_def
      obs_encoder_add_output_def Let_def world_simps)

text \<open>
  Claim C9 says that \<^verbatim>\<open>obs_output_set_video_encoder\<close> and
  \<^verbatim>\<open>obs_output_set_audio_encoder\<close>, on a valid change, first remove the old link on
  the encoder's side, then add the new one, then store the reference, so that an output
  references an encoder exactly when the encoder's set of outputs contains the output.
  The no-op cases hold (\<open>null_handle_operations\<close>, \<open>set_video_encoder_unchanged\<close>,
  \<open>set_audio_encoder_unchanged\<close>) and the new link is made
  (\<open>set_video_encoder_links_new\<close>), but the encoder the code removes the output from is
  the new one, the argument of the call, not the one bound so far: after a change away
  from an encoder \<open>old\<close>, the slot holds the new encoder and the set of outputs of
  \<open>old\<close> is what it was, the output still in it.
\<close>

theorem set_encoder_keeps_old_link:
  "(video_encoder (outputs w p) = Some old \<and> encoder \<noteq> Some old \<and>
      (\<forall>e. encoder = Some e \<longrightarrow> encoder_type (encoders w e) = OBS_ENCODER_VIDEO) \<longrightarrow>
      video_encoder (outputs (obs_output_set_video_encoder w (Some p) encoder) p) = encoder \<and>
      encoder_outputs (encoders (obs_output_set_video_encoder w (Some p) encoder) old) =
        encoder_outputs (encoders w old)) \<and>
   (audio_encoder (outputs w p) = Some old \<and> encoder \<noteq> Some old \<and>
      (\<forall>e. encoder = Some e \<longrightarrow> encoder_type (encoders w e) = OBS_ENCODER_AUDIO) \<longrightarrow>
      audio_encoder (outputs (obs_output_set_audio_encoder w (Some p) encoder) p) = encoder \<and>
      encoder_outputs (encoders (obs_output_set_audio_encoder w (Some p) encoder) old) =
        encoder_outputs (encoders w old))"
  by (cases encoder)
     (auto simp add: obs_output_set_video_encoder_def obs_output_set_audio_encoder_def
        obs_encoder_remove_output_def obs_encoder_add_output_def Let_def world_simps)

theorem set_encoder_keeps_old_link_witness:
  "video_encoder (outputs example_world 1) = Some 5 \<and>
   1 \<in> encoder_outputs (encoders example_world 5) \<and>
   encoder_type (encoders example_world 8) = OBS_ENCODER_VIDEO \<and>
   video_encoder (outputs (obs_output_set_video_encoder example_world (Some 1) (Some 8)) 1) =
     Some 8 \<and>
   1 \<in> encoder_outputs
         (encoders (obs_output_set_video_encoder example_world (Some 1) (Some 8)) 5) \<and>
   audio_encoder (outputs example_world 1) = Some 6 \<and>
   1 \<in> encoder_outputs (encoders example_world 6) \<and>
   encoder_type (encoders example_world 9) = OBS_ENCODER_AUDIO \<and>
   audio_encoder (outputs (obs_output_set_audio_encoder example_world (Some 1) (Some 9)) 1) =
     Some 9 \<and>
   1 \<in> encoder_outputs
         (encoders (obs_output_set_audio_encoder example_world (Some 1) (Some 9)) 6)"
  using set_encoder_keeps_old_link [of example_world 1 5 "Some 8"]
    set_encoder_keeps_old_link [of example_world 1 6 "Some 9"]
  by (simp add: example_world_def example_encoder_def example_output_def)

subsection \<open>The interleaver over capture sessions\<close>




text \<open>
  Claim C4 says that the first video packet released to the sink has adjusted dts 0.
  The first video packet is rebased to dts 0 by \<^verbatim>\<open>prepare_interleaved_packet\<close> and
  then dropped: in the first session, where a video and an audio packet are both
  accepted, the sink receives nothing. What the sink receives first, in the session
  after, is the uninitialised entry of a rejected audio packet, here one that reads as
  a video packet with dts 7.
\<close>

theorem first_released_video_not_rebased:
  "\<exists>w w'. run_operations example_bits example_world first_session = Inr w \<and>
       released (trace w) = [] \<and>
       run_operations example_bits w restarted_session = Inr w' \<and>
       released (trace w') = [packet (stack_garbage 7)] \<and>
       packet_type (packet (stack_garbage 7)) = OBS_ENCODER_VIDEO \<and>
       dts (packet (stack_garbage 7)) = 7"
  by (simp add: first_session_run)
     (simp add: restarted_session_def after_first_session_def capture_defs
      example_world_def example_bits_def interleave_defs example_defs interleave_idx_eval
      word_sless_alt)

subsection \<open>NULL handles\<close>

lemma null_handle_operations:
  "obs_output_start w None = (False, w)"
  "obs_output_stop w None = w"
  "obs_output_active w None = False"
  "obs_output_update w None s = w"
  "obs_output_canpause w None = False"
  "obs_output_pause w None = w"
  "obs_output_signalhandler w None = None"
  "obs_output_prochandler w None = None"
  "obs_output_set_media w None v a = w"
  "obs_output_video w None = None"
  "obs_output_audio w None = None"
  "obs_output_remove_encoder w None e = w"
  "obs_output_set_video_encoder w None e = w"
  "obs_output_set_audio_encoder w None e = w"
  "obs_output_get_video_encoder w None = None"
  "obs_output_get_audio_encoder w None = None"
  "obs_output_set_video_conversion w None c = w"
  "obs_output_set_audio_conversion w None c = w"
  "obs_output_can_begin_data_capture bits w None flgs = False"
  "obs_output_begin_data_capture bits w None flgs = Inr (False, w)"
  "obs_output_end_data_capture bits w None = Inr w"
  by (simp_all add: obs_output_start_def obs_output_stop_def obs_output_active_def
      obs_output_update_def obs_output_canpause_def obs_output_pause_def
      obs_output_signalhandler_def obs_output_prochandler_def obs_output_set_media_def
      obs_output_video_def obs_output_audio_def obs_output_remove_encoder_def
      obs_output_set_video_encoder_def obs_output_set_audio_encoder_def
      obs_output_get_video_encoder_def obs_output_get_audio_encoder_def
      obs_output_set_video_conversion_def obs_output_set_audio_conversion_def
      obs_output_can_begin_data_capture_def obs_output_begin_data_capture_def
      obs_output_end_data_capture_def)

text \<open>
  Claim C10 says that every public operation taking an output handle treats NULL as a
  no-op, false or NULL and never dereferences it, \<^verbatim>\<open>obs_output_signal_start_fail\<close>
  included. The other operations of the model do (\<open>null_handle_operations\<close>), but
  \<^verbatim>\<open>obs_output_signal_start_fail\<close> passes its handle unchecked to \<^verbatim>\<open>signal_start\<close>,
  which reads \<^verbatim>\<open>output->signals\<close>: on NULL the call is a NULL dereference, whatever
  the store and the code.
\<close>

theorem signal_start_fail_null_deref:
  "obs_output_signal_start_fail w None code = Inl Null_deref"
  by (simp add: obs_output_signal_start_fail_def signal_start_def)

end
